theory Spec2Isabelle
  imports Main
begin

section \<open>Data model of \<^verbatim>\<open>jupyter_core/application.py\<close>\<close>

text \<open>
  The module defines one class, \<^verbatim>\<open>JupyterApp\<close>, on top of the \<^verbatim>\<open>traitlets\<close>
  \<^verbatim>\<open>Application\<close>. The object's traits, the parts of the operating system the
  methods touch (files, standard input and output, the log) and a record of every
  call made to a collaborator are kept in one state record that each method takes
  and returns. A Python exception is a value: a method returns \<open>Inl e\<close> when it
  raises \<open>e\<close> and \<open>Inr x\<close> when it returns \<open>x\<close>; the state reached at the raise
  is returned with it.
\<close>

datatype cfg_value = VBool bool | VInt int | VStr string

type_synonym cfg_section = "string \<rightharpoonup> cfg_value"

text \<open>A \<^verbatim>\<open>Config\<close> object: section name, then field name, then value.\<close>

type_synonym config = "string \<rightharpoonup> cfg_section"

datatype exn =
    ConfigFileNotFound
  | NoStart
  | TraitError
  | ArgumentError
  | EOFError
  | UnicodeDecodeError
  | PyException string
  | KeyboardInterrupt
  | SystemExit int

text \<open>
  \<^verbatim>\<open>except Exception\<close> catches every class but the two that derive from
  \<^verbatim>\<open>BaseException\<close> directly.
\<close>

fun is_Exception :: "exn \<Rightarrow> bool" where
  "is_Exception KeyboardInterrupt = False"
| "is_Exception (SystemExit _) = False"
| "is_Exception _ = True"

text \<open>
  The \<^verbatim>\<open>path\<close> argument of the inherited \<^verbatim>\<open>load_config_file\<close> is a list of
  directories in one call and a single string in the other.
\<close>

datatype path_arg = PathList "string list" | PathStr string

datatype event =
    Which string
  | ParseCommandLine "string list"
  | MigrateConfig
  | Migrate
  | LoadConfigFile bool
  | SuperLoadConfigFile string path_arg
  | UpdateConfig
  | Execv string "string list"
  | SubappStart string
  | WriteDefaultConfig
  | GenerateConfigFile
  | EnsureDirExists string
  | OpenWrite string

text \<open>What \<^verbatim>\<open>input\<close> meets on standard input: a line, or the user's interrupt.\<close>

datatype reply = Line string | CtrlC

datatype level = DEBUG | WARN | ERROR

text \<open>A log record: level, format string, arguments.\<close>

type_synonym log_record = "level \<times> string \<times> string list"

record world =
  name :: string
  config :: config
  config_dir :: string
  config_file_name_trait :: "string option"
  config_file :: string
  generate_config :: bool
  answer_yes :: bool
  subapp :: "string option"
  subcommand :: string
  argv :: "string list"
  fs :: "string \<rightharpoonup> string"
  stdin :: "reply list"
  stdout :: "string list"
  log :: "log_record list"
  calls :: "event list"

text \<open>
  The value a generated configuration takes: \<^verbatim>\<open>generate_config_file\<close> returns
  \<^verbatim>\<open>str\<close> or \<^verbatim>\<open>bytes\<close>.
\<close>

datatype config_text = Text string | Bytes string

text \<open>
  \<^verbatim>\<open>os.execv\<close> replaces the process image, raises, or (when it is replaced by a
  test double) returns.
\<close>

datatype exec_result = Replaced | ExecRaised exn | ExecReturned

text \<open>
  The collaborators, none of which is defined in the module: the functions of
  \<^verbatim>\<open>.paths\<close> and \<^verbatim>\<open>.migrate\<close>, \<^verbatim>\<open>which\<close>, the methods inherited from
  \<^verbatim>\<open>Application\<close>, and the operating system. Each is a parameter. A collaborator
  that can change the application takes the state and returns the new one.
\<close>

record env =
  sys_argv :: "string list"
  getcwd :: string
  jupyter_config_path :: "string list"
  which :: "string \<Rightarrow> string option"
  parse_command_line :: "string list \<Rightarrow> world \<Rightarrow> (exn + unit) \<times> world"
  super_load_config_file :: "string \<Rightarrow> path_arg \<Rightarrow> world \<Rightarrow> (exn + unit) \<times> world"
  update_config :: "config \<Rightarrow> world \<Rightarrow> (exn + unit) \<times> world"
  get_ipython_dir :: string
  migrate :: "world \<Rightarrow> (exn + unit) \<times> world"
  os_execv :: "string \<Rightarrow> string list \<Rightarrow> exec_result"
  subapp_start :: "string \<Rightarrow> world \<Rightarrow> (exn + unit) \<times> world"
  generate_config_file :: "world \<Rightarrow> config_text"
  decode_utf8 :: "string \<Rightarrow> string option"
  ensure_dir_exists :: "string \<Rightarrow> world \<Rightarrow> (exn + unit) \<times> world"
  abspath :: "string \<Rightarrow> string"
  open_error :: "string \<Rightarrow> world \<Rightarrow> exn option"

text \<open>
  A call to a collaborator is recorded in \<open>calls\<close> once it has come back, whatever
  it returned or raised; the collaborator itself cannot touch the record.
\<close>

definition call :: "event \<Rightarrow> (world \<Rightarrow> 'a \<times> world) \<Rightarrow> world \<Rightarrow> 'a \<times> world" where
  "call ev f w = (case f w of (r, w') \<Rightarrow> (r, w'\<lparr>calls := calls w @ [ev]\<rparr>))"

definition note_call :: "event \<Rightarrow> world \<Rightarrow> world" where
  "note_call ev w = w\<lparr>calls := calls w @ [ev]\<rparr>"

definition log_debug :: "string \<Rightarrow> string list \<Rightarrow> world \<Rightarrow> world" where
  "log_debug fmt args w = w\<lparr>log := log w @ [(DEBUG, fmt, args)]\<rparr>"

definition log_warn :: "string \<Rightarrow> string list \<Rightarrow> world \<Rightarrow> world" where
  "log_warn fmt args w = w\<lparr>log := log w @ [(WARN, fmt, args)]\<rparr>"

definition log_error :: "string \<Rightarrow> string list \<Rightarrow> world \<Rightarrow> world" where
  "log_error fmt args w = w\<lparr>log := log w @ [(ERROR, fmt, args)]\<rparr>"

definition print :: "string \<Rightarrow> world \<Rightarrow> world" where
  "print s w = w\<lparr>stdout := stdout w @ [s]\<rparr>"

section \<open>Path helpers of the standard library (POSIX)\<close>

definition rstrip_sep :: "string \<Rightarrow> string" where
  "rstrip_sep s = rev (dropWhile (\<lambda>c. c = CHR ''/'') (rev s))"

text \<open>
  \<^verbatim>\<open>os.path.split\<close>: the tail is what follows the last slash; the head is what
  precedes it, with its trailing slashes removed unless it consists of slashes only.
\<close>

definition os_path_split :: "string \<Rightarrow> string \<times> string" where
  "os_path_split p =
     (let tail = rev (takeWhile (\<lambda>c. c \<noteq> CHR ''/'') (rev p));
          head = take (length p - length tail) p
      in (if head \<noteq> [] \<and> head \<noteq> replicate (length head) (CHR ''/'')
          then rstrip_sep head else head, tail))"

definition os_path_dirname :: "string \<Rightarrow> string" where
  "os_path_dirname p = fst (os_path_split p)"

definition os_path_join :: "string \<Rightarrow> string \<Rightarrow> string" where
  "os_path_join a b =
     (if b \<noteq> [] \<and> hd b = CHR ''/'' then b
      else if a = [] \<or> last a = CHR ''/'' then a @ b
      else a @ ''/'' @ b)"

definition os_path_exists :: "world \<Rightarrow> string \<Rightarrow> bool" where
  "os_path_exists w p = (fs w p \<noteq> None)"

section \<open>The methods of \<^verbatim>\<open>JupyterApp\<close>\<close>

subsection \<open>\<^verbatim>\<open>config_file_paths\<close>\<close>

text \<open>
  \<^verbatim>\<open>list.insert(0, x)\<close> puts \<open>x\<close> at the head. The list comes fresh from
  \<^verbatim>\<open>jupyter_config_path()\<close> at every access of the property.
\<close>

definition config_file_paths :: "env \<Rightarrow> world \<Rightarrow> string list" where
  "config_file_paths E w =
     (let path = jupyter_config_path E;
          path = (if config_dir w \<notin> set path then config_dir w # path else path)
      in getcwd E # path)"

subsection \<open>\<^verbatim>\<open>config_file_name\<close> and its default\<close>

definition config_file_name_default :: "world \<Rightarrow> string" where
  "config_file_name_default w =
     (if name w = [] then []
      else map (\<lambda>c. if c = CHR ''-'' then CHR ''_'' else c) (name w) @ ''_config'')"

text \<open>The trait holds a value once one has been assigned; until then its default is used.\<close>

definition config_file_name :: "world \<Rightarrow> string" where
  "config_file_name w =
     (case config_file_name_trait w of Some s \<Rightarrow> s | None \<Rightarrow> config_file_name_default w)"

subsection \<open>\<^verbatim>\<open>write_default_config\<close>\<close>

text \<open>\<^verbatim>\<open>str.lower\<close>, on the ASCII letters.\<close>

definition lower_char :: "char \<Rightarrow> char" where
  "lower_char c =
     (let n = (of_char c :: nat) in if 65 \<le> n \<and> n \<le> 90 then char_of (n + 32) else c)"

definition lower :: "string \<Rightarrow> string" where
  "lower s = map lower_char s"

definition startswith :: "string \<Rightarrow> char \<Rightarrow> bool" where
  "startswith s c = (case s of [] \<Rightarrow> False | d # _ \<Rightarrow> d = c)"

definition startswith_yn :: "string \<Rightarrow> bool" where
  "startswith_yn s = (startswith s (CHR ''y'') \<or> startswith s (CHR ''n''))"

definition overwrite_prompt :: "string \<Rightarrow> string" where
  "overwrite_prompt cfile = ''Overwrite '' @ cfile @ '' with default config? [y/N]''"

definition guidance :: string where
  "guidance = ''Please answer '' @ [CHR 0x27] @ ''yes'' @ [CHR 0x27] @ '' or ''
                @ [CHR 0x27] @ ''no'' @ [CHR 0x27]"

text \<open>
  The inner function \<^verbatim>\<open>ask\<close>. \<^verbatim>\<open>input\<close> writes the prompt and reads one line;
  at the end of the input it raises \<^verbatim>\<open>EOFError\<close>, which nothing here catches.
  An empty answer counts as \<^verbatim>\<open>'n'\<close>, and so does the user's interrupt.
\<close>

definition ask :: "string \<Rightarrow> world \<Rightarrow> (exn + string) \<times> world" where
  "ask cfile w0 =
     (let w = print (overwrite_prompt cfile) w0
      in case stdin w of
           [] \<Rightarrow> (Inl EOFError, w)
         | Line s # rest \<Rightarrow>
             (Inr (if lower s = [] then ''n'' else lower s), w\<lparr>stdin := rest\<rparr>)
         | CtrlC # rest \<Rightarrow> (Inr ''n'', print [] (w\<lparr>stdin := rest\<rparr>)))"

lemma ask_consumes:
  "ask cfile w = (Inr a, w') \<Longrightarrow> length (stdin w') < length (stdin w)"
  by (auto simp: ask_def print_def Let_def split: list.splits reply.splits)

text \<open>The \<^verbatim>\<open>while\<close> loop: every round reads one reply, so it ends with the input.\<close>

function ask_until :: "string \<Rightarrow> string \<Rightarrow> world \<Rightarrow> (exn + string) \<times> world" where
  "ask_until cfile answer w =
     (if startswith_yn answer then (Inr answer, w)
      else (case ask cfile (print guidance w) of
              (Inl e, w') \<Rightarrow> (Inl e, w')
            | (Inr a, w') \<Rightarrow> ask_until cfile a w'))"
  by pat_completeness auto
termination
  apply (relation "measure (\<lambda>(cfile, answer, w). length (stdin w))")
   apply simp
  apply (auto simp: print_def dest!: sym [THEN ask_consumes])
  done

declare ask_until.simps [simp del]

text \<open>
  Lines 142 to 148: render the defaults and write them. \<^verbatim>\<open>decode('utf8')\<close> of a
  \<^verbatim>\<open>bytes\<close> value raises \<^verbatim>\<open>UnicodeDecodeError\<close> where the bytes are not UTF-8
  (\<open>decode_utf8\<close> has no value), before anything is printed. Opening the file for
  writing raises where \<open>open_error\<close> says so; otherwise the text replaces the
  file's content. The mode \<^verbatim>\<open>0o700\<close> passed to \<^verbatim>\<open>ensure_dir_exists\<close> is not
  recorded.
\<close>

definition write_config_text :: "env \<Rightarrow> string \<Rightarrow> world \<Rightarrow> (exn + unit) \<times> world" where
  "write_config_text E cfile w0 =
     (let w = note_call GenerateConfigFile w0
      in case (case generate_config_file E w of
                 Text t \<Rightarrow> Inr t
               | Bytes b \<Rightarrow> (case decode_utf8 E b of
                              None \<Rightarrow> Inl UnicodeDecodeError
                            | Some t \<Rightarrow> Inr t)) of
           Inl e \<Rightarrow> (Inl e, w)
         | Inr config_text \<Rightarrow>
             (let w = print (''Writing default config to: '' @ cfile) w;
                  d = abspath E (os_path_dirname cfile)
              in case call (EnsureDirExists d) (ensure_dir_exists E d) w of
                   (Inl e, w1) \<Rightarrow> (Inl e, w1)
                 | (Inr _, w1) \<Rightarrow>
                     (let w2 = note_call (OpenWrite cfile) w1
                      in case open_error E cfile w2 of
                           Some e \<Rightarrow> (Inl e, w2)
                         | None \<Rightarrow>
                             (Inr (), w2\<lparr>fs := (fs w2)(cfile \<mapsto> config_text)\<rparr>))))"

definition write_default_config :: "env \<Rightarrow> world \<Rightarrow> (exn + unit) \<times> world" where
  "write_default_config E w0 =
     (let w = note_call WriteDefaultConfig w0;
          cf = (if config_file w \<noteq> [] then config_file w
                else os_path_join (config_dir w) (config_file_name w @ ''.py''))
      in if os_path_exists w cf \<and> \<not> answer_yes w
         then (case ask cf w of
                 (Inl e, w1) \<Rightarrow> (Inl e, w1)
               | (Inr answer, w1) \<Rightarrow>
                   (case ask_until cf answer w1 of
                      (Inl e, w2) \<Rightarrow> (Inl e, w2)
                    | (Inr answer, w2) \<Rightarrow>
                        if startswith answer (CHR ''n'') then (Inr (), w2)
                        else write_config_text E cf w2))
         else write_config_text E cf w)"

subsection \<open>Vocabulary for the statements about the confirmation\<close>

text \<open>
  The file \<^verbatim>\<open>write_default_config\<close> writes to; the answer \<^verbatim>\<open>ask\<close> returns for a
  reply; the replies that end the loop and those that decline; what the terminal
  shows after an interrupt; and the lines written while the replies \<open>pre\<close>, none of
  which ends the loop, and then \<open>r\<close> are read.
\<close>

definition answer_of :: "reply \<Rightarrow> string" where
  "answer_of r = (case r of CtrlC \<Rightarrow> ''n'' | Line s \<Rightarrow> if lower s = [] then ''n'' else lower s)"

definition decisive :: "reply \<Rightarrow> bool" where
  "decisive r = (case r of CtrlC \<Rightarrow> True | Line s \<Rightarrow> s = [] \<or> startswith_yn (lower s))"

definition declines :: "reply \<Rightarrow> bool" where
  "declines r = (case r of CtrlC \<Rightarrow> True | Line s \<Rightarrow> s = [] \<or> startswith (lower s) (CHR ''n''))"

definition echo :: "reply \<Rightarrow> string list" where
  "echo r = (case r of CtrlC \<Rightarrow> [[]] | Line s \<Rightarrow> [])"

definition transcript :: "string \<Rightarrow> reply list \<Rightarrow> reply \<Rightarrow> string list" where
  "transcript cfile pre r =
     [overwrite_prompt cfile]
     @ concat (replicate (length pre) [guidance, overwrite_prompt cfile]) @ echo r"

definition target :: "world \<Rightarrow> string" where
  "target w = (if config_file w \<noteq> [] then config_file w
                else os_path_join (config_dir w) (config_file_name w @ ''.py''))"

subsection \<open>\<^verbatim>\<open>migrate_config\<close>\<close>

definition migrate_config :: "env \<Rightarrow> world \<Rightarrow> (exn + unit) \<times> world" where
  "migrate_config E w0 =
     (let w = note_call MigrateConfig w0
      in if os_path_exists w (os_path_join (config_dir w) ''migrated'') then (Inr (), w)
         else (let ipdir = get_ipython_dir E
               in if \<not> os_path_exists w ipdir then (Inr (), w)
                  else call Migrate (migrate E) w))"

subsection \<open>\<^verbatim>\<open>load_config_file\<close>\<close>

definition base_config :: string where
  "base_config = ''jupyter_config''"

text \<open>The inherited loader, called with a name and a path, and recorded.\<close>

definition super_load :: "env \<Rightarrow> string \<Rightarrow> path_arg \<Rightarrow> world \<Rightarrow> (exn + unit) \<times> world" where
  "super_load E n p w = call (SuperLoadConfigFile n p) (super_load_config_file E n p) w"

text \<open>The first \<^verbatim>\<open>try\<close>: only \<^verbatim>\<open>ConfigFileNotFound\<close> has a handler.\<close>

definition try_base_load :: "env \<Rightarrow> world \<Rightarrow> (exn + unit) \<times> world" where
  "try_base_load E w =
     (case super_load E base_config (PathList (config_file_paths E w)) w of
        (Inl e, w1) \<Rightarrow>
          if e = ConfigFileNotFound
          then (Inr (), log_debug ''Config file %s not found'' [base_config] w1)
          else (Inl e, w1)
      | (Inr u, w1) \<Rightarrow> (Inr u, w1))"

text \<open>
  The second \<^verbatim>\<open>try\<close>: \<^verbatim>\<open>ConfigFileNotFound\<close> first, then \<^verbatim>\<open>Exception\<close>, raised
  again unless \<^verbatim>\<open>suppress_errors\<close> holds.
\<close>

definition try_app_load :: "env \<Rightarrow> bool \<Rightarrow> string \<Rightarrow> path_arg \<Rightarrow> world \<Rightarrow> (exn + unit) \<times> world" where
  "try_app_load E suppress_errors fname p w =
     (case super_load E fname p w of
        (Inl e, w1) \<Rightarrow>
          if e = ConfigFileNotFound
          then (Inr (), log_debug ''Config file not found, skipping: %s'' [fname] w1)
          else if is_Exception e
          then (if \<not> suppress_errors then (Inl e, w1)
                else (Inr (), log_warn ''Error loading config file: %s'' [fname] w1))
          else (Inl e, w1)
      | (Inr u, w1) \<Rightarrow> (Inr u, w1))"

text \<open>
  Line 172 and the record of the call: the state in which the shared configuration
  is looked for.
\<close>

definition load_entry :: "env \<Rightarrow> bool \<Rightarrow> world \<Rightarrow> world" where
  "load_entry E suppress_errors w0 =
     (let w = note_call (LoadConfigFile suppress_errors) w0
      in log_debug ''Searching %s for config files'' (config_file_paths E w) w)"

definition load_config_file :: "env \<Rightarrow> bool \<Rightarrow> world \<Rightarrow> (exn + unit) \<times> world" where
  "load_config_file E suppress_errors w0 =
     (let w = load_entry E suppress_errors w0
      in case try_base_load E w of
           (Inl e, w1) \<Rightarrow> (Inl e, w1)
         | (Inr _, w1) \<Rightarrow>
             if config_file w1 \<noteq> []
             then (case os_path_split (config_file w1) of
                     (path, fname) \<Rightarrow>
                       try_app_load E suppress_errors fname (PathStr path) w1)
             else (let path = config_file_paths E w1;
                       fname = config_file_name w1
                   in if fname = [] \<or> fname = base_config
                      then (Inr (), w1)
                      else try_app_load E suppress_errors fname (PathList path) w1))"

subsection \<open>Subcommands and dispatch\<close>

text \<open>\<^verbatim>\<open>'{}-{}'.format(self.name, name)\<close>, looked up with \<^verbatim>\<open>which\<close>.\<close>

definition find_subcommand :: "env \<Rightarrow> string \<Rightarrow> world \<Rightarrow> string option \<times> world" where
  "find_subcommand E n w =
     (let full = name w @ ''-'' @ n
      in (which E full, note_call (Which full) w))"

definition dispatching :: "world \<Rightarrow> bool" where
  "dispatching w = (generate_config w \<or> subapp w \<noteq> None \<or> subcommand w \<noteq> [])"

subsection \<open>\<^verbatim>\<open>initialize\<close>\<close>

text \<open>
  The body of \<^verbatim>\<open>initialize\<close>, in two parts: the lookup of an external
  subcommand, and (\<open>resolve\<close>) everything from \<^verbatim>\<open>parse_command_line\<close> on.
  \<^verbatim>\<open>deepcopy(self.config)\<close> is the value of the configuration at that point:
  values here are never shared, so what is loaded afterwards cannot reach the copy.
\<close>

definition resolve :: "env \<Rightarrow> string list \<Rightarrow> world \<Rightarrow> (exn + unit) \<times> world" where
  "resolve E args w0 =
     (case call (ParseCommandLine args) (parse_command_line E args) w0 of
        (Inl e, w1) \<Rightarrow> (Inl e, w1)
      | (Inr _, w1) \<Rightarrow>
          (let cl_config = config w1
           in if dispatching w1 then (Inr (), w1)
              else (case migrate_config E w1 of
                      (Inl e, w2) \<Rightarrow> (Inl e, w2)
                    | (Inr _, w2) \<Rightarrow>
                        (case load_config_file E True w2 of
                           (Inl e, w3) \<Rightarrow> (Inl e, w3)
                         | (Inr _, w3) \<Rightarrow>
                             call UpdateConfig (update_config E cl_config) w3))))"

text \<open>\<^verbatim>\<open>if argv is None: argv = sys.argv[1:]\<close>.\<close>

definition effective_argv :: "env \<Rightarrow> string list option \<Rightarrow> string list" where
  "effective_argv E argv_opt = (case argv_opt of None \<Rightarrow> tl (sys_argv E) | Some a \<Rightarrow> a)"

definition initialize_body :: "env \<Rightarrow> string list option \<Rightarrow> world \<Rightarrow> (exn + unit) \<times> world" where
  "initialize_body E argv_opt w =
     (let args = effective_argv E argv_opt
      in if args \<noteq> []
         then (case find_subcommand E (hd args) w of
                 (Some subc, w0) \<Rightarrow>
                   if subc \<noteq> [] then (Inr (), w0\<lparr>argv := args, subcommand := subc\<rparr>)
                   else resolve E args w0
               | (None, w0) \<Rightarrow> resolve E args w0)
         else resolve E args w)"

text \<open>
  The decorator \<^verbatim>\<open>catch_config_error\<close> of \<^verbatim>\<open>traitlets\<close> around the body: a
  \<^verbatim>\<open>TraitError\<close> or \<^verbatim>\<open>ArgumentError\<close> of the body ends in \<^verbatim>\<open>app.exit(1)\<close>;
  every other outcome passes through. The help text and the fatal log lines it
  emits on that path are left out.
\<close>

definition catch_config_error :: "(world \<Rightarrow> (exn + unit) \<times> world) \<Rightarrow> world \<Rightarrow> (exn + unit) \<times> world" where
  "catch_config_error method w =
     (case method w of
        (Inl e, w') \<Rightarrow> if e = TraitError \<or> e = ArgumentError then (Inl (SystemExit 1), w') else (Inl e, w')
      | (Inr u, w') \<Rightarrow> (Inr u, w'))"

definition initialize :: "env \<Rightarrow> string list option \<Rightarrow> world \<Rightarrow> (exn + unit) \<times> world" where
  "initialize E argv_opt w = catch_config_error (initialize_body E argv_opt) w"

subsection \<open>\<^verbatim>\<open>start\<close> and \<^verbatim>\<open>launch_instance\<close>\<close>

text \<open>How a run of \<^verbatim>\<open>start\<close> ends when it does not raise.\<close>

datatype ending = Returned | ProcessReplaced

definition start :: "env \<Rightarrow> world \<Rightarrow> (exn + ending) \<times> world" where
  "start E w =
     (if subcommand w \<noteq> []
      then (let args = [subcommand w] @ tl (argv w);
                w1 = note_call (Execv (subcommand w) args) w
            in case os_execv E (subcommand w) args of
                 Replaced \<Rightarrow> (Inr ProcessReplaced, w1)
               | ExecRaised e \<Rightarrow> (Inl e, w1)
               | ExecReturned \<Rightarrow> (Inl NoStart, w1))
      else (case subapp w of
              Some sa \<Rightarrow>
                (case call (SubappStart sa) (subapp_start E sa) w of
                   (Inl e, w1) \<Rightarrow> (Inl e, w1)
                 | (Inr _, w1) \<Rightarrow> (Inl NoStart, w1))
            | None \<Rightarrow>
                if generate_config w
                then (case write_default_config E w of
                        (Inl e, w1) \<Rightarrow> (Inl e, w1)
                      | (Inr _, w1) \<Rightarrow> (Inl NoStart, w1))
                else (Inr Returned, w)))"

text \<open>
  Modelled from the spec: the inherited \<^verbatim>\<open>Application.launch_instance\<close> of
  \<^verbatim>\<open>traitlets\<close>, which is not part of the module. The spec's control flow has the
  entry point construct the application, initialize it and then run its start phase.
\<close>

definition super_launch_instance :: "env \<Rightarrow> string list option \<Rightarrow> world \<Rightarrow> (exn + ending) \<times> world" where
  "super_launch_instance E argv_opt w =
     (case initialize E argv_opt w of
        (Inl e, w1) \<Rightarrow> (Inl e, w1)
      | (Inr _, w1) \<Rightarrow> start E w1)"

definition launch_instance :: "env \<Rightarrow> string list option \<Rightarrow> world \<Rightarrow> (exn + ending) \<times> world" where
  "launch_instance E argv_opt w =
     (case super_launch_instance E argv_opt w of
        (Inl e, w1) \<Rightarrow> if e = NoStart then (Inr Returned, w1) else (Inl e, w1)
      | (Inr r, w1) \<Rightarrow> (Inr r, w1))"

subsection \<open>Vocabulary for the statements about \<^verbatim>\<open>initialize\<close>\<close>

text \<open>
  The first token names an external subcommand: \<^verbatim>\<open>which\<close> finds the executable
  \<^verbatim>\<open>name-token\<close> (the test \<^verbatim>\<open>if subc\<close> of line 229).
\<close>

definition external_subcommand :: "env \<Rightarrow> string list \<Rightarrow> world \<Rightarrow> bool" where
  "external_subcommand E args w =
     (args \<noteq> [] \<and>
      (case which E (name w @ ''-'' @ hd args) of None \<Rightarrow> False | Some p \<Rightarrow> p \<noteq> []))"

text \<open>The state in which \<^verbatim>\<open>parse_command_line\<close> is called when there is none.\<close>

definition after_lookup :: "env \<Rightarrow> string list \<Rightarrow> world \<Rightarrow> world" where
  "after_lookup E args w =
     (if args = [] then w else note_call (Which (name w @ ''-'' @ hd args)) w)"

text \<open>
  The recorded calls that belong to migration and to the loading of configuration
  files.
\<close>

fun resolution_event :: "event \<Rightarrow> bool" where
  "resolution_event MigrateConfig = True"
| "resolution_event Migrate = True"
| "resolution_event (LoadConfigFile _) = True"
| "resolution_event (SuperLoadConfigFile _ _) = True"
| "resolution_event _ = False"

subsection \<open>The merge of configurations\<close>

text \<open>
  Modelled from the spec: \<^verbatim>\<open>Config.merge\<close> of \<^verbatim>\<open>traitlets\<close>, which
  \<^verbatim>\<open>update_config\<close> applies and which is not part of the module. In the spec's
  merge engine the later source wins on a conflict, field by field, and a source
  contributes nothing where it has no field.
\<close>

definition merge_section :: "cfg_section option \<Rightarrow> cfg_section option \<Rightarrow> cfg_section option" where
  "merge_section a b =
     (case b of None \<Rightarrow> a
      | Some sb \<Rightarrow> (case a of None \<Rightarrow> Some sb | Some sa \<Rightarrow> Some (sa ++ sb)))"

definition merge_config :: "config \<Rightarrow> config \<Rightarrow> config" where
  "merge_config c other = (\<lambda>s. merge_section (c s) (other s))"

text \<open>The value of a field in a configuration, when it has one.\<close>

definition lookup :: "config \<Rightarrow> string \<Rightarrow> string \<Rightarrow> cfg_value option" where
  "lookup c s f = (case c s of None \<Rightarrow> None | Some sec \<Rightarrow> sec f)"

text \<open>
  Modelled from the spec: the contract of the inherited \<^verbatim>\<open>update_config\<close>, which
  is not part of the module. It returns, and the configuration it leaves is the
  merge of the one it found with its argument, the argument winning. What else it
  does to the application is left open.
\<close>

definition update_config_merges :: "env \<Rightarrow> bool" where
  "update_config_merges E =
     (\<forall>c w. fst (update_config E c w) = Inr ()
            \<and> config (snd (update_config E c w)) = merge_config (config w) c)"

section \<open>An example installation\<close>

text \<open>
  Concrete collaborators on which the theorems below are exercised: an application
  named \<^verbatim>\<open>demo\<close>, a command line that knows three options, a shared configuration
  that sets \<^verbatim>\<open>App.x\<close> to 1 and an application configuration that sets it to 2.
\<close>

definition set_field :: "string \<Rightarrow> string \<Rightarrow> cfg_value \<Rightarrow> config \<Rightarrow> config" where
  "set_field s f v c = merge_config c [s \<mapsto> [f \<mapsto> v]]"

definition demo_parse :: "string list \<Rightarrow> world \<Rightarrow> (exn + unit) \<times> world" where
  "demo_parse args w =
     (Inr (), w\<lparr>argv := args,
                generate_config := (generate_config w \<or> ''--generate-config'' \<in> set args),
                answer_yes := (answer_yes w \<or> ''-y'' \<in> set args),
                config := (if ''--App.x=3'' \<in> set args
                           then set_field ''App'' ''x'' (VInt 3) (config w) else config w)\<rparr>)"

definition demo_load :: "string \<Rightarrow> path_arg \<Rightarrow> world \<Rightarrow> (exn + unit) \<times> world" where
  "demo_load n p w =
     (if n = ''jupyter_config''
      then (Inr (), w\<lparr>config := set_field ''App'' ''x'' (VInt 1) (config w)\<rparr>)
      else if n = ''demo_config''
      then (Inr (), w\<lparr>config := set_field ''App'' ''x'' (VInt 2)
                                    (set_field ''App'' ''y'' (VInt 7) (config w))\<rparr>)
      else (Inl ConfigFileNotFound, w))"

definition demo_update :: "config \<Rightarrow> world \<Rightarrow> (exn + unit) \<times> world" where
  "demo_update c w = (Inr (), w\<lparr>config := merge_config (config w) c\<rparr>)"

definition demo_env :: env where
  "demo_env =
     \<lparr>sys_argv = [''demo''],
      getcwd = ''/work'',
      jupyter_config_path = [''/home/u/.jupyter'', ''/etc/jupyter''],
      which = (\<lambda>n. if n = ''demo-notebook'' then Some ''/usr/bin/demo-notebook'' else None),
      parse_command_line = demo_parse,
      super_load_config_file = demo_load,
      update_config = demo_update,
      get_ipython_dir = ''/home/u/.ipython'',
      migrate = (\<lambda>w. (Inr (), w)),
      os_execv = (\<lambda>p a. Replaced),
      subapp_start = (\<lambda>sa w. (Inr (), w)),
      generate_config_file = (\<lambda>w. Text ''# defaults''),
      decode_utf8 = Some,
      ensure_dir_exists = (\<lambda>d w. (Inr (), w)),
      abspath = (\<lambda>p. p),
      open_error = (\<lambda>p w. None)\<rparr>"

definition demo_world :: world where
  "demo_world =
     \<lparr>name = ''demo'',
      config = Map.empty,
      config_dir = ''/home/u/.jupyter'',
      config_file_name_trait = None,
      config_file = [],
      generate_config = False,
      answer_yes = False,
      subapp = None,
      subcommand = [],
      argv = [],
      fs = [''/home/u/.jupyter/migrated'' \<mapsto> [],
            ''/home/u/.jupyter/demo_config.py'' \<mapsto> ''# old''],
      stdin = [],
      stdout = [],
      log = [],
      calls = []\<rparr>"

text \<open>
  The inherited loader where the shared file \<^verbatim>\<open>jupyter_config\<close> is found and does
  not parse. The loader of \<^verbatim>\<open>traitlets\<close> logs the error and returns; when its
  \<^verbatim>\<open>raise_config_file_errors\<close> is set it raises the error instead.
\<close>

definition invalid_base_load :: "bool \<Rightarrow> string \<Rightarrow> path_arg \<Rightarrow> world \<Rightarrow> (exn + unit) \<times> world" where
  "invalid_base_load raise_config_file_errors n p w =
     (if n = ''jupyter_config''
      then (if raise_config_file_errors then (Inl (PyException ''SyntaxError''), w)
            else (Inr (), log_error ''Exception while loading config file %s'' [n] w))
      else demo_load n p w)"

definition broken_base_env :: "bool \<Rightarrow> env" where
  "broken_base_env raise_config_file_errors =
     demo_env\<lparr>super_load_config_file := invalid_base_load raise_config_file_errors\<rparr>"

text \<open>
  An installation with one more file, \<^verbatim>\<open>/srv/conf/jupyter_config\<close>, which sets
  \<^verbatim>\<open>App.z\<close> to 5 and is found only when \<^verbatim>\<open>/srv/conf\<close> alone is searched.
\<close>

definition explicit_load :: "string \<Rightarrow> path_arg \<Rightarrow> world \<Rightarrow> (exn + unit) \<times> world" where
  "explicit_load n p w =
     (if p = PathStr ''/srv/conf''
      then (if n = ''jupyter_config''
            then (Inr (), w\<lparr>config := set_field ''App'' ''z'' (VInt 5) (config w)\<rparr>)
            else (Inl ConfigFileNotFound, w))
      else demo_load n p w)"

definition explicit_env :: env where
  "explicit_env = demo_env\<lparr>super_load_config_file := explicit_load\<rparr>"

definition absent_env :: env where
  "absent_env = demo_env\<lparr>super_load_config_file := (\<lambda>n p w. (Inl ConfigFileNotFound, w))\<rparr>"

lemma demo_env_sel [simp]:
  "getcwd demo_env = ''/work''"
  "jupyter_config_path demo_env = [''/home/u/.jupyter'', ''/etc/jupyter'']"
  "super_load_config_file demo_env = demo_load"
  "parse_command_line demo_env = demo_parse"
  "update_config demo_env = demo_update"
  "get_ipython_dir demo_env = ''/home/u/.ipython''"
  "which demo_env = (\<lambda>n. if n = ''demo-notebook'' then Some ''/usr/bin/demo-notebook'' else None)"
  "os_execv demo_env = (\<lambda>p a. Replaced)"
  "generate_config_file demo_env = (\<lambda>w. Text ''# defaults'')"
  "ensure_dir_exists demo_env = (\<lambda>d w. (Inr (), w))"
  "abspath demo_env = (\<lambda>p. p)"
  "decode_utf8 demo_env = Some"
  "open_error demo_env = (\<lambda>p w. None)"
  "sys_argv demo_env = [''demo'']"
  by (simp_all add: demo_env_def)

lemma demo_world_sel [simp]:
  "name demo_world = ''demo''"
  "config demo_world = Map.empty"
  "config_dir demo_world = ''/home/u/.jupyter''"
  "config_file_name_trait demo_world = None"
  "config_file demo_world = []"
  "generate_config demo_world = False"
  "answer_yes demo_world = False"
  "subapp demo_world = None"
  "subcommand demo_world = []"
  "argv demo_world = []"
  "stdin demo_world = []"
  "stdout demo_world = []"
  "log demo_world = []"
  "calls demo_world = []"
  "fs demo_world = [''/home/u/.jupyter/migrated'' \<mapsto> [],
                    ''/home/u/.jupyter/demo_config.py'' \<mapsto> ''# old'']"
  by (simp_all add: demo_world_def)

section \<open>Basic facts\<close>

lemma fst_call [simp]: "fst (call ev f w) = fst (f w)"
  by (simp add: call_def split: prod.splits)

lemma calls_call [simp]: "calls (snd (call ev f w)) = calls w @ [ev]"
  by (simp add: call_def split: prod.splits)

lemma config_file_name_frame [simp]:
  "config_file_name (w\<lparr>calls := c\<rparr>) = config_file_name w"
  "config_file_name (w\<lparr>log := l\<rparr>) = config_file_name w"
  by (simp_all add: config_file_name_def config_file_name_default_def split: option.splits)

lemma config_file_paths_frame [simp]:
  "config_file_paths E (w\<lparr>calls := c\<rparr>) = config_file_paths E w"
  "config_file_paths E (w\<lparr>log := l\<rparr>) = config_file_paths E w"
  by (simp_all add: config_file_paths_def Let_def)

lemma demo_paths [simp]:
  "config_file_paths demo_env demo_world = [''/work'', ''/home/u/.jupyter'', ''/etc/jupyter'']"
  by (simp add: config_file_paths_def)

lemma load_entry_simps [simp]:
  "calls (load_entry E se w) = calls w @ [LoadConfigFile se]"
  "log (load_entry E se w) = log w @ [(DEBUG, ''Searching %s for config files'', config_file_paths E w)]"
  "config_file_paths E (load_entry E se w) = config_file_paths E w"
  by (simp_all add: load_entry_def note_call_def log_debug_def Let_def)

lemma load_entry_eq:
  "load_entry E se w = w\<lparr>calls := calls w @ [LoadConfigFile se],
     log := log w @ [(DEBUG, ''Searching %s for config files'', config_file_paths E w)]\<rparr>"
  by (simp add: load_entry_def note_call_def log_debug_def Let_def)

lemma try_base_load_not_found: "fst (try_base_load E w) \<noteq> Inl ConfigFileNotFound"
  by (simp add: try_base_load_def super_load_def call_def split: prod.splits sum.splits)

lemma try_app_load_not_found: "fst (try_app_load E se n p w) \<noteq> Inl ConfigFileNotFound"
  by (simp add: try_app_load_def super_load_def call_def split: prod.splits sum.splits)

lemma try_base_load_absent:
  assumes "super_load_config_file E base_config (PathList (config_file_paths E w)) w
             = (Inl ConfigFileNotFound, w1)"
  shows "try_base_load E w =
           (Inr (), w1\<lparr>calls := calls w @ [SuperLoadConfigFile base_config (PathList (config_file_paths E w))],
                       log := log w1 @ [(DEBUG, ''Config file %s not found'', [base_config])]\<rparr>)"
  using assms by (simp add: try_base_load_def super_load_def call_def log_debug_def)

lemma try_base_load_returns:
  assumes "super_load_config_file E base_config (PathList (config_file_paths E w)) w = (Inr (), w1)"
  shows "try_base_load E w =
           (Inr (), w1\<lparr>calls := calls w @ [SuperLoadConfigFile base_config (PathList (config_file_paths E w))]\<rparr>)"
  using assms by (simp add: try_base_load_def super_load_def call_def)

lemma try_base_load_raises:
  assumes "super_load_config_file E base_config (PathList (config_file_paths E w)) w = (Inl e, w1)"
    and "e \<noteq> ConfigFileNotFound"
  shows "try_base_load E w =
           (Inl e, w1\<lparr>calls := calls w @ [SuperLoadConfigFile base_config (PathList (config_file_paths E w))]\<rparr>)"
  using assms by (simp add: try_base_load_def super_load_def call_def)

lemma try_app_load_absent:
  assumes "super_load_config_file E n p w = (Inl ConfigFileNotFound, w1)"
  shows "try_app_load E se n p w =
           (Inr (), w1\<lparr>calls := calls w @ [SuperLoadConfigFile n p],
                       log := log w1 @ [(DEBUG, ''Config file not found, skipping: %s'', [n])]\<rparr>)"
  using assms by (simp add: try_app_load_def super_load_def call_def log_debug_def)

lemma calls_try_app_load:
  "calls (snd (try_app_load E se n p w)) = calls w @ [SuperLoadConfigFile n p]"
  by (simp add: try_app_load_def super_load_def call_def log_debug_def log_warn_def
      split: prod.splits sum.splits)

lemma calls_try_base_load:
  "calls (snd (try_base_load E w)) =
     calls w @ [SuperLoadConfigFile base_config (PathList (config_file_paths E w))]"
  by (simp add: try_base_load_def super_load_def call_def log_debug_def
      split: prod.splits sum.splits)

lemma config_call [simp]: "config (snd (call ev f w)) = config (snd (f w))"
  by (simp add: call_def split: prod.splits)

lemma dispatching_frame [simp]: "dispatching (w\<lparr>calls := c\<rparr>) = dispatching w"
  by (simp add: dispatching_def)

lemma catch_config_error_returns:
  "method w = (Inr u, w') \<Longrightarrow> catch_config_error method w = (Inr u, w')"
  by (simp add: catch_config_error_def)

lemma catch_config_error_returns_iff:
  "catch_config_error method w = (Inr u, w') \<longleftrightarrow> method w = (Inr u, w')"
  by (auto simp: catch_config_error_def split: prod.splits sum.splits if_splits)

lemma initialize_body_no_subcommand:
  "\<not> external_subcommand E (effective_argv E argv_opt) w \<Longrightarrow>
     initialize_body E argv_opt w =
       resolve E (effective_argv E argv_opt) (after_lookup E (effective_argv E argv_opt) w)"
  by (auto simp: initialize_body_def external_subcommand_def after_lookup_def find_subcommand_def
      Let_def split: option.splits)

lemma lookup_merge_config:
  "lookup (merge_config a b) s f =
     (case lookup b s f of Some v \<Rightarrow> Some v | None \<Rightarrow> lookup a s f)"
  by (simp add: lookup_def merge_config_def merge_section_def map_add_def split: option.splits)

section \<open>The search path\<close>

text \<open>
  Claim C7. Every value of \<^verbatim>\<open>config_file_paths\<close> is a list that begins with the
  current working directory and contains \<^verbatim>\<open>config_dir\<close>. The configuration
  directory is put in front of the paths of \<^verbatim>\<open>jupyter_config_path()\<close> when it is
  not among them and only then; the working directory is put in front in every
  case, whether or not it is already a member.
\<close>

theorem config_file_paths_shape:
  "hd (config_file_paths E w) = getcwd E
   \<and> config_dir w \<in> set (config_file_paths E w)
   \<and> (config_dir w \<notin> set (jupyter_config_path E) \<longrightarrow>
        config_file_paths E w = getcwd E # config_dir w # jupyter_config_path E)
   \<and> (config_dir w \<in> set (jupyter_config_path E) \<longrightarrow>
        config_file_paths E w = getcwd E # jupyter_config_path E)"
  by (simp add: config_file_paths_def Let_def)

theorem config_file_paths_shape_witness:
  "config_file_paths demo_env (demo_world\<lparr>config_dir := ''/work''\<rparr>)
     = [''/work'', ''/work'', ''/home/u/.jupyter'', ''/etc/jupyter'']
   \<and> config_file_paths demo_env demo_world = [''/work'', ''/home/u/.jupyter'', ''/etc/jupyter'']"
proof -
  have "config_dir (demo_world\<lparr>config_dir := ''/work''\<rparr>) \<notin> set (jupyter_config_path demo_env)"
    by (simp add: demo_env_def)
  with config_file_paths_shape [of demo_env "demo_world\<lparr>config_dir := ''/work''\<rparr>"]
  have a: "config_file_paths demo_env (demo_world\<lparr>config_dir := ''/work''\<rparr>)
             = getcwd demo_env # ''/work'' # jupyter_config_path demo_env"
    by simp
  have "config_dir demo_world \<in> set (jupyter_config_path demo_env)"
    by (simp add: demo_env_def demo_world_def)
  with config_file_paths_shape [of demo_env demo_world]
  have b: "config_file_paths demo_env demo_world = getcwd demo_env # jupyter_config_path demo_env"
    by simp
  from a b show ?thesis
    by (simp add: demo_env_def)
qed

section \<open>Loading the configuration files\<close>

text \<open>
  Claim C9. A configuration file that is absent is never an error of
  \<^verbatim>\<open>load_config_file\<close>: with \<^verbatim>\<open>suppress_errors\<close> true or false the method
  never raises \<^verbatim>\<open>ConfigFileNotFound\<close>. When no file is found at all (every call
  of the inherited loader raises \<^verbatim>\<open>ConfigFileNotFound\<close> and changes nothing), the
  method returns, every log record it adds is at debug level, and the state is
  otherwise as it was.
\<close>

theorem absent_config_is_not_an_error:
  "fst (load_config_file E suppress_errors w) \<noteq> Inl ConfigFileNotFound
   \<and> ((\<forall>n p w'. super_load_config_file E n p w' = (Inl ConfigFileNotFound, w')) \<longrightarrow>
        fst (load_config_file E suppress_errors w) = Inr ()
        \<and> set (map fst (drop (length (log w)) (log (snd (load_config_file E suppress_errors w)))))
            = {DEBUG}
        \<and> (snd (load_config_file E suppress_errors w))\<lparr>calls := calls w, log := log w\<rparr> = w)"
proof -
  have never: "fst (load_config_file E suppress_errors w) \<noteq> Inl ConfigFileNotFound"
    using try_base_load_not_found [of E "load_entry E suppress_errors w"]
    by (auto simp: load_config_file_def Let_def try_app_load_not_found
        split: prod.splits sum.splits)
  have silent: "fst (load_config_file E suppress_errors w) = Inr ()
        \<and> set (map fst (drop (length (log w)) (log (snd (load_config_file E suppress_errors w)))))
            = {DEBUG}
        \<and> (snd (load_config_file E suppress_errors w))\<lparr>calls := calls w, log := log w\<rparr> = w"
    if nf: "\<forall>n p w'. super_load_config_file E n p w' = (Inl ConfigFileNotFound, w')"
  proof -
    have b: "try_base_load E w' =
        (Inr (), w'\<lparr>calls := calls w' @ [SuperLoadConfigFile base_config (PathList (config_file_paths E w'))],
                    log := log w' @ [(DEBUG, ''Config file %s not found'', [base_config])]\<rparr>)" for w'
      using nf by (simp add: try_base_load_absent)
    have a: "try_app_load E suppress_errors n p w' =
        (Inr (), w'\<lparr>calls := calls w' @ [SuperLoadConfigFile n p],
                    log := log w' @ [(DEBUG, ''Config file not found, skipping: %s'', [n])]\<rparr>)" for n p w'
      using nf by (simp add: try_app_load_absent)
    show ?thesis
      by (simp add: load_config_file_def Let_def a b load_entry_eq split: prod.splits)
  qed
  from never silent show ?thesis by blast
qed

theorem absent_config_is_not_an_error_witness:
  "fst (load_config_file absent_env False demo_world) = Inr ()
   \<and> fst (load_config_file absent_env False demo_world) \<noteq> Inl ConfigFileNotFound
   \<and> set (map fst (log (snd (load_config_file absent_env False demo_world)))) = {DEBUG}"
proof -
  have "\<forall>n p w'. super_load_config_file absent_env n p w' = (Inl ConfigFileNotFound, w')"
    by (simp add: absent_env_def)
  with absent_config_is_not_an_error [of absent_env False demo_world] show ?thesis
    by simp
qed

text \<open>
  The first \<^verbatim>\<open>try\<close> has no handler but the one for \<^verbatim>\<open>ConfigFileNotFound\<close>:
  whatever else the inherited loader raises for the shared source leaves
  \<^verbatim>\<open>load_config_file\<close> as it is, with \<^verbatim>\<open>suppress_errors\<close> true or false, and the
  application's own source is not looked for.
\<close>

lemma base_step_handles_not_found_only:
  assumes "super_load_config_file E base_config (PathList (config_file_paths E w))
             (load_entry E suppress_errors w) = (Inl e, w1)"
  shows "(e = ConfigFileNotFound \<longrightarrow>
            fst (try_base_load E (load_entry E suppress_errors w)) = Inr ())
       \<and> (e \<noteq> ConfigFileNotFound \<longrightarrow>
            load_config_file E suppress_errors w =
              (Inl e, w1\<lparr>calls := calls w @ [LoadConfigFile suppress_errors,
                  SuperLoadConfigFile base_config (PathList (config_file_paths E w))]\<rparr>))"
proof -
  let ?w = "load_entry E suppress_errors w"
  from assms
  have l: "super_load_config_file E base_config (PathList (config_file_paths E ?w)) ?w = (Inl e, w1)"
    by simp
  have "e = ConfigFileNotFound \<longrightarrow> fst (try_base_load E ?w) = Inr ()"
    using try_base_load_absent [of E ?w w1] l by auto
  moreover have "e \<noteq> ConfigFileNotFound \<longrightarrow>
           load_config_file E suppress_errors w =
             (Inl e, w1\<lparr>calls := calls w @ [LoadConfigFile suppress_errors,
                 SuperLoadConfigFile base_config (PathList (config_file_paths E w))]\<rparr>)"
    using try_base_load_raises [OF l] by (simp add: load_config_file_def Let_def)
  ultimately show ?thesis by simp
qed

text \<open>
  Claim C4. The claim has a shared source that is found and does not parse never
  stop \<^verbatim>\<open>load_config_file\<close>, in either mode. That holds while the inherited
  loader keeps the parse error to itself, as it does unless told otherwise: the
  method then returns. It fails once the loader is told to raise
  (\<^verbatim>\<open>raise_config_file_errors\<close>): the parse error of \<^verbatim>\<open>jupyter_config\<close> then
  reaches the caller of \<^verbatim>\<open>load_config_file\<close>, with \<^verbatim>\<open>suppress_errors\<close> true as
  well as false, although the comment in the handler reads \<^verbatim>\<open>ignore errors
  loading parent\<close>, the docstring has errors handled by default, and the second
  \<^verbatim>\<open>try\<close> does handle \<^verbatim>\<open>Exception\<close>.
\<close>

theorem base_invalid_propagates:
  "fst (load_config_file (broken_base_env True) True demo_world) = Inl (PyException ''SyntaxError'')
   \<and> fst (load_config_file (broken_base_env True) False demo_world) = Inl (PyException ''SyntaxError'')
   \<and> fst (load_config_file (broken_base_env False) True demo_world) = Inr ()
   \<and> fst (load_config_file (broken_base_env False) False demo_world) = Inr ()"
  by (simp add: load_config_file_def Let_def try_base_load_def try_app_load_def super_load_def
      call_def log_debug_def log_error_def load_entry_eq broken_base_env_def invalid_base_load_def
      demo_load_def base_config_def config_file_name_def config_file_name_default_def)

text \<open>
  Claim C6. When no explicit \<^verbatim>\<open>config_file\<close> is set and the application's
  configuration name is the shared name \<^verbatim>\<open>jupyter_config\<close>, \<^verbatim>\<open>load_config_file\<close>
  calls the inherited loader exactly once, for the shared source, and never for the
  application's own source. (Both traits are read after the shared load, which may
  have changed them.)
\<close>

theorem base_name_collision_skips_app_load:
  assumes "super_load_config_file E base_config (PathList (config_file_paths E w))
             (load_entry E suppress_errors w) = (r, w1)"
    and "config_file w1 = []"
    and "config_file_name w1 = base_config"
  shows "calls (snd (load_config_file E suppress_errors w)) =
           calls w @ [LoadConfigFile suppress_errors,
                      SuperLoadConfigFile base_config (PathList (config_file_paths E w))]"
proof -
  let ?w = "load_entry E suppress_errors w"
  from assms(1)
  have l: "super_load_config_file E base_config (PathList (config_file_paths E ?w)) ?w = (r, w1)"
    by simp
  obtain r' w1' where t: "try_base_load E ?w = (r', w1')"
    by (cases "try_base_load E ?w")
  have c: "calls w1' = calls ?w @ [SuperLoadConfigFile base_config (PathList (config_file_paths E ?w))]"
    using calls_try_base_load [of E ?w] t by simp
  have f: "config_file w1' = config_file w1 \<and> config_file_name w1' = config_file_name w1"
    using t l by (auto simp: try_base_load_def super_load_def call_def log_debug_def
        split: sum.splits if_splits)
  show ?thesis
    using t c f assms(2,3) by (simp add: load_config_file_def Let_def split: sum.splits)
qed

theorem base_name_collision_skips_app_load_witness:
  "config_file_name (demo_world\<lparr>name := ''jupyter''\<rparr>) = ''jupyter_config''
   \<and> calls (snd (load_config_file demo_env True (demo_world\<lparr>name := ''jupyter''\<rparr>))) =
       [LoadConfigFile True,
        SuperLoadConfigFile ''jupyter_config''
          (PathList [''/work'', ''/home/u/.jupyter'', ''/etc/jupyter''])]"
proof -
  let ?w = "demo_world\<lparr>name := ''jupyter''\<rparr>"
  let ?w1 = "(load_entry demo_env True ?w)\<lparr>config := set_field ''App'' ''x'' (VInt 1) Map.empty\<rparr>"
  have p: "config_file_paths demo_env ?w = [''/work'', ''/home/u/.jupyter'', ''/etc/jupyter'']"
    by (simp add: config_file_paths_def)
  have n: "config_file_name ?w = ''jupyter_config''"
    by (simp add: config_file_name_def config_file_name_default_def)
  have 1: "super_load_config_file demo_env base_config (PathList (config_file_paths demo_env ?w))
          (load_entry demo_env True ?w) = (Inr (), ?w1)"
    by (simp add: demo_load_def base_config_def load_entry_eq)
  have 2: "config_file ?w1 = []"
    by (simp add: load_entry_eq)
  have 3: "config_file_name ?w1 = base_config"
    by (simp add: load_entry_eq config_file_name_def config_file_name_default_def base_config_def)
  from base_name_collision_skips_app_load [OF 1 2 3] n show ?thesis
    by (simp add: p base_config_def)
qed

text \<open>
  Claim C10. With an explicit \<^verbatim>\<open>config_file\<close> the shared source
  \<^verbatim>\<open>jupyter_config\<close> is still loaded first, from the whole search path. The
  inherited loader is then called a second time, in the state the shared load left,
  with the explicit path's file name as the name and the path's directory, alone,
  as the place to search; what that call returns or raises, and the state it
  leaves, decide how \<^verbatim>\<open>load_config_file\<close> ends. The second call is made whatever
  the file name is, also when it is empty or equal to the shared name.
\<close>

theorem explicit_config_file_replaces_app_step:
  assumes "super_load_config_file E base_config (PathList (config_file_paths E w))
             (load_entry E suppress_errors w) = (r, w1)"
    and "r = Inr () \<or> r = Inl ConfigFileNotFound"
    and "config_file w1 \<noteq> []"
    and "fname = snd (os_path_split (config_file w1))"
    and "d = fst (os_path_split (config_file w1))"
    and "w1' = w1\<lparr>calls := calls w @ [LoadConfigFile suppress_errors,
                     SuperLoadConfigFile base_config (PathList (config_file_paths E w))],
                   log := log w1 @ (if r = Inr () then []
                                    else [(DEBUG, ''Config file %s not found'', [base_config])])\<rparr>"
    and "super_load_config_file E fname (PathStr d) w1' = (r2, w2)"
    and "w2' = w2\<lparr>calls := calls w @ [LoadConfigFile suppress_errors,
                     SuperLoadConfigFile base_config (PathList (config_file_paths E w)),
                     SuperLoadConfigFile fname (PathStr d)]\<rparr>"
  shows "load_config_file E suppress_errors w =
           (case r2 of
              Inr u \<Rightarrow> (Inr (), w2')
            | Inl e \<Rightarrow>
                if e = ConfigFileNotFound
                then (Inr (), w2'\<lparr>log := log w2 @
                        [(DEBUG, ''Config file not found, skipping: %s'', [fname])]\<rparr>)
                else if is_Exception e \<and> suppress_errors
                then (Inr (), w2'\<lparr>log := log w2 @
                        [(WARN, ''Error loading config file: %s'', [fname])]\<rparr>)
                else (Inl e, w2'))"
proof -
  let ?w = "load_entry E suppress_errors w"
  from assms(1)
  have l: "super_load_config_file E base_config (PathList (config_file_paths E ?w)) ?w = (r, w1)"
    by simp
  have t: "try_base_load E ?w = (Inr (), w1')"
  proof (cases "r = Inr ()")
    case True
    with l try_base_load_returns [of E ?w w1] assms(6) show ?thesis by simp
  next
    case False
    with assms(2) have "r = Inl ConfigFileNotFound" by simp
    with l try_base_load_absent [of E ?w w1] assms(6) show ?thesis by simp
  qed
  have c: "config_file w1' = config_file w1"
    by (simp add: assms(6))
  have eq: "load_config_file E suppress_errors w =
              try_app_load E suppress_errors fname (PathStr d) w1'"
    using t assms(3) by (simp add: load_config_file_def Let_def c assms(4,5) split: prod.splits)
  have k: "calls w1' = calls w @ [LoadConfigFile suppress_errors,
             SuperLoadConfigFile base_config (PathList (config_file_paths E w))]"
    by (simp add: assms(6))
  show ?thesis
    unfolding eq
    by (cases r2)
       (auto simp: try_app_load_def super_load_def call_def log_debug_def log_warn_def
          assms(7,8) k)
qed

lemma os_path_split_example:
  "os_path_split ''/srv/conf/jupyter_config'' = (''/srv/conf'', ''jupyter_config'')"
  by (simp add: os_path_split_def rstrip_sep_def Let_def)

theorem explicit_config_file_replaces_app_step_witness:
  "fst (load_config_file explicit_env True
          (demo_world\<lparr>config_file := ''/srv/conf/jupyter_config''\<rparr>)) = Inr ()
   \<and> lookup (config (snd (load_config_file explicit_env True
          (demo_world\<lparr>config_file := ''/srv/conf/jupyter_config''\<rparr>)))) ''App'' ''x''
       = Some (VInt 1)
   \<and> lookup (config (snd (load_config_file explicit_env True
          (demo_world\<lparr>config_file := ''/srv/conf/jupyter_config''\<rparr>)))) ''App'' ''z''
       = Some (VInt 5)
   \<and> calls (snd (load_config_file explicit_env True
          (demo_world\<lparr>config_file := ''/srv/conf/jupyter_config''\<rparr>))) =
       [LoadConfigFile True,
        SuperLoadConfigFile ''jupyter_config''
          (PathList [''/work'', ''/home/u/.jupyter'', ''/etc/jupyter'']),
        SuperLoadConfigFile ''jupyter_config'' (PathStr ''/srv/conf'')]"
proof -
  let ?w = "demo_world\<lparr>config_file := ''/srv/conf/jupyter_config''\<rparr>"
  let ?ev = "[LoadConfigFile True,
              SuperLoadConfigFile ''jupyter_config''
                (PathList [''/work'', ''/home/u/.jupyter'', ''/etc/jupyter''])]"
  let ?w1 = "(load_entry explicit_env True ?w)\<lparr>config := set_field ''App'' ''x'' (VInt 1) Map.empty\<rparr>"
  let ?w1' = "?w1\<lparr>calls := ?ev, log := log ?w1\<rparr>"
  let ?w2 = "?w1'\<lparr>config := set_field ''App'' ''z'' (VInt 5) (config ?w1')\<rparr>"
  let ?w2' = "?w2\<lparr>calls := ?ev @ [SuperLoadConfigFile ''jupyter_config'' (PathStr ''/srv/conf'')]\<rparr>"
  have p: "config_file_paths explicit_env ?w = [''/work'', ''/home/u/.jupyter'', ''/etc/jupyter'']"
    by (simp add: config_file_paths_def explicit_env_def)
  have 1: "super_load_config_file explicit_env base_config
             (PathList (config_file_paths explicit_env ?w)) (load_entry explicit_env True ?w)
           = (Inr (), ?w1)"
    by (simp add: explicit_env_def explicit_load_def demo_load_def base_config_def load_entry_eq)
  have 2: "Inr () = Inr () \<or> Inr () = (Inl ConfigFileNotFound :: exn + unit)"
    by simp
  have cf: "config_file ?w1 = ''/srv/conf/jupyter_config''"
    by (simp add: load_entry_eq)
  then have 3: "config_file ?w1 \<noteq> []"
    by simp
  have 4: "''jupyter_config'' = snd (os_path_split (config_file ?w1))"
    by (simp add: cf os_path_split_example)
  have 5: "''/srv/conf'' = fst (os_path_split (config_file ?w1))"
    by (simp add: cf os_path_split_example)
  have 6: "?w1' = ?w1\<lparr>calls := calls ?w @ [LoadConfigFile True,
                     SuperLoadConfigFile base_config (PathList (config_file_paths explicit_env ?w))],
                   log := log ?w1 @ (if (Inr () :: exn + unit) = Inr () then []
                                    else [(DEBUG, ''Config file %s not found'', [base_config])])\<rparr>"
    by (simp add: p base_config_def)
  have 7: "super_load_config_file explicit_env ''jupyter_config'' (PathStr ''/srv/conf'') ?w1'
             = (Inr (), ?w2)"
    by (simp add: explicit_env_def explicit_load_def)
  have 8: "?w2' = ?w2\<lparr>calls := calls ?w @ [LoadConfigFile True,
                     SuperLoadConfigFile base_config (PathList (config_file_paths explicit_env ?w)),
                     SuperLoadConfigFile ''jupyter_config'' (PathStr ''/srv/conf'')]\<rparr>"
    by (simp add: p base_config_def)
  from explicit_config_file_replaces_app_step [OF 1 2 3 4 5 6 7 8]
  have r: "load_config_file explicit_env True ?w = (Inr (), ?w2')"
    by simp
  have a: "fst (load_config_file explicit_env True ?w) = Inr ()"
    by (simp add: r)
  have b: "lookup (config (snd (load_config_file explicit_env True ?w))) ''App'' ''x'' = Some (VInt 1)"
    by (simp add: r load_entry_eq lookup_def set_field_def merge_config_def merge_section_def)
  have c: "lookup (config (snd (load_config_file explicit_env True ?w))) ''App'' ''z'' = Some (VInt 5)"
    by (simp add: r load_entry_eq lookup_def set_field_def merge_config_def merge_section_def)
  have d: "calls (snd (load_config_file explicit_env True ?w)) =
       ?ev @ [SuperLoadConfigFile ''jupyter_config'' (PathStr ''/srv/conf'')]"
    by (simp add: r)
  show ?thesis
    using a b c d by simp
qed

section \<open>Initialization and dispatch\<close>

text \<open>
  Claim C2. When the command line is not empty and \<^verbatim>\<open>which\<close> finds an executable
  named after the application's name and the first token, \<^verbatim>\<open>initialize\<close> stores
  the command line and the executable's path and returns: the lookup is the only
  call it has made, so the command line is not parsed, nothing is migrated and no
  configuration is loaded. \<^verbatim>\<open>start\<close> then calls \<^verbatim>\<open>os.execv\<close> on that path, with
  the path followed by every token of the command line but the first.
\<close>

theorem external_subcommand_short_circuit:
  assumes "args = effective_argv E argv_opt"
    and "args \<noteq> []"
    and "which E (name w @ ''-'' @ hd args) = Some subc"
    and "subc \<noteq> []"
  shows "initialize E argv_opt w =
           (Inr (), w\<lparr>argv := args, subcommand := subc,
                      calls := calls w @ [Which (name w @ ''-'' @ hd args)]\<rparr>)
       \<and> fst (start E (snd (initialize E argv_opt w))) =
           (case os_execv E subc ([subc] @ tl args) of
              Replaced \<Rightarrow> Inr ProcessReplaced
            | ExecRaised e \<Rightarrow> Inl e
            | ExecReturned \<Rightarrow> Inl NoStart)
       \<and> calls (snd (start E (snd (initialize E argv_opt w)))) =
           calls w @ [Which (name w @ ''-'' @ hd args), Execv subc ([subc] @ tl args)]"
proof -
  have i: "initialize E argv_opt w =
           (Inr (), w\<lparr>argv := args, subcommand := subc,
                      calls := calls w @ [Which (name w @ ''-'' @ hd args)]\<rparr>)"
    using assms
    by (simp add: initialize_def catch_config_error_def initialize_body_def find_subcommand_def
        note_call_def Let_def)
  show ?thesis
    unfolding i using assms(4)
    by (simp add: start_def note_call_def Let_def split: exec_result.splits)
qed

theorem external_subcommand_short_circuit_witness:
  "initialize demo_env (Some [''notebook'', ''--port=9'']) demo_world =
     (Inr (), demo_world\<lparr>argv := [''notebook'', ''--port=9''],
                         subcommand := ''/usr/bin/demo-notebook'',
                         calls := [Which ''demo-notebook'']\<rparr>)
   \<and> fst (start demo_env (snd (initialize demo_env (Some [''notebook'', ''--port=9'']) demo_world)))
       = Inr ProcessReplaced
   \<and> calls (snd (start demo_env
        (snd (initialize demo_env (Some [''notebook'', ''--port=9'']) demo_world)))) =
       [Which ''demo-notebook'',
        Execv ''/usr/bin/demo-notebook'' [''/usr/bin/demo-notebook'', ''--port=9'']]"
proof -
  let ?args = "[''notebook'', ''--port=9'']"
  have 1: "?args = effective_argv demo_env (Some ?args)"
    by (simp add: effective_argv_def)
  have 2: "?args \<noteq> []"
    by simp
  have 3: "which demo_env (name demo_world @ ''-'' @ hd ?args) = Some ''/usr/bin/demo-notebook''"
    by simp
  have 4: "''/usr/bin/demo-notebook'' \<noteq> []"
    by simp
  note t = external_subcommand_short_circuit [OF 1 2 3 4]
  have a: "initialize demo_env (Some ?args) demo_world =
     (Inr (), demo_world\<lparr>argv := ?args, subcommand := ''/usr/bin/demo-notebook'',
                         calls := [Which ''demo-notebook'']\<rparr>)"
    using t [THEN conjunct1] by simp
  have b: "fst (start demo_env (snd (initialize demo_env (Some ?args) demo_world)))
       = Inr ProcessReplaced"
    using t [THEN conjunct2, THEN conjunct1] by simp
  have c: "calls (snd (start demo_env (snd (initialize demo_env (Some ?args) demo_world)))) =
       [Which ''demo-notebook'',
        Execv ''/usr/bin/demo-notebook'' [''/usr/bin/demo-notebook'', ''--port=9'']]"
    using t [THEN conjunct2, THEN conjunct2] by simp
  show ?thesis
    by (rule conjI [OF a conjI [OF b c]])
qed

text \<open>
  Claim C3. When no external subcommand is found and, once the command line has
  been parsed, the generate-config flag is set, a sub-application is selected or a
  subcommand is designated, \<^verbatim>\<open>initialize\<close> returns the state the parser left:
  \<^verbatim>\<open>migrate_config\<close>, \<^verbatim>\<open>load_config_file\<close> and the collaborators they call are
  not called at all.
\<close>

theorem dispatching_skips_resolution:
  assumes "args = effective_argv E argv_opt"
    and "\<not> external_subcommand E args w"
    and "parse_command_line E args (after_lookup E args w) = (Inr (), w1)"
    and "dispatching w1"
  shows "initialize E argv_opt w =
           (Inr (), w1\<lparr>calls := calls (after_lookup E args w) @ [ParseCommandLine args]\<rparr>)
       \<and> filter resolution_event (calls (snd (initialize E argv_opt w))) =
           filter resolution_event (calls w)"
proof -
  have "resolve E args (after_lookup E args w) =
           (Inr (), w1\<lparr>calls := calls (after_lookup E args w) @ [ParseCommandLine args]\<rparr>)"
    using assms(3,4) by (simp add: resolve_def call_def Let_def)
  then have i: "initialize E argv_opt w =
           (Inr (), w1\<lparr>calls := calls (after_lookup E args w) @ [ParseCommandLine args]\<rparr>)"
    using assms(1,2)
    by (simp add: initialize_def initialize_body_no_subcommand catch_config_error_returns)
  show ?thesis
    unfolding i by (simp add: after_lookup_def note_call_def)
qed

theorem dispatching_skips_resolution_witness:
  "fst (initialize demo_env (Some [''--generate-config'']) demo_world) = Inr ()
   \<and> calls (snd (initialize demo_env (Some [''--generate-config'']) demo_world)) =
       [Which ''demo---generate-config'', ParseCommandLine [''--generate-config'']]
   \<and> filter resolution_event
        (calls (snd (initialize demo_env (Some [''--generate-config'']) demo_world))) = []"
proof -
  let ?args = "[''--generate-config'']"
  let ?w0 = "after_lookup demo_env ?args demo_world"
  let ?w1 = "?w0\<lparr>argv := ?args, generate_config := True, answer_yes := False, config := Map.empty\<rparr>"
  have 1: "?args = effective_argv demo_env (Some ?args)"
    by (simp add: effective_argv_def)
  have 2: "\<not> external_subcommand demo_env ?args demo_world"
    by (simp add: external_subcommand_def)
  have 3: "parse_command_line demo_env ?args ?w0 = (Inr (), ?w1)"
    by (simp add: demo_parse_def after_lookup_def note_call_def)
  have 4: "dispatching ?w1"
    by (simp add: dispatching_def)
  from dispatching_skips_resolution [OF 1 2 3 4] show ?thesis
    by (simp add: after_lookup_def note_call_def)
qed

text \<open>
  Claim C1. Let the inherited \<^verbatim>\<open>update_config\<close> merge as the spec's merge engine
  does. When no external subcommand is found, the parser returns and the
  application is not dispatching, then on every run of \<^verbatim>\<open>initialize\<close> that
  completes, each field the configuration had right after the parse (the copy
  \<^verbatim>\<open>cl_config\<close>) has that same value in the final configuration, whatever the
  migration and the configuration files did in between.
\<close>

theorem command_line_overrides_files:
  assumes "update_config_merges E"
    and "args = effective_argv E argv_opt"
    and "\<not> external_subcommand E args w"
    and "parse_command_line E args (after_lookup E args w) = (Inr (), w1)"
    and "\<not> dispatching w1"
    and "initialize E argv_opt w = (Inr (), w')"
    and "lookup (config w1) s f = Some v"
  shows "lookup (config w') s f = Some v"
proof -
  let ?w1 = "w1\<lparr>calls := calls (after_lookup E args w) @ [ParseCommandLine args]\<rparr>"
  from assms(2,3,6) have r: "resolve E args (after_lookup E args w) = (Inr (), w')"
    by (simp add: initialize_def catch_config_error_returns_iff initialize_body_no_subcommand)
  obtain r2 w2 where m: "migrate_config E ?w1 = (r2, w2)"
    by (cases "migrate_config E ?w1")
  obtain r3 w3 where l: "load_config_file E True w2 = (r3, w3)"
    by (cases "load_config_file E True w2")
  from r assms(4,5) m l
  have u: "call UpdateConfig (update_config E (config w1)) w3 = (Inr (), w')"
    by (simp add: resolve_def call_def Let_def split: sum.splits prod.splits)
  then have "config w' = config (snd (update_config E (config w1) w3))"
    by (auto simp: call_def split: prod.splits)
  also have "\<dots> = merge_config (config w3) (config w1)"
    using assms(1) by (simp add: update_config_merges_def)
  finally show ?thesis
    using assms(7) by (simp add: lookup_merge_config)
qed

lemma demo_initialize_returns:
  "fst (initialize demo_env (Some [''--App.x=3'']) demo_world) = Inr ()"
  by (simp add: initialize_def catch_config_error_def initialize_body_def effective_argv_def
      find_subcommand_def resolve_def call_def note_call_def demo_parse_def dispatching_def
      migrate_config_def os_path_exists_def os_path_join_def load_config_file_def load_entry_eq
      try_base_load_def try_app_load_def super_load_def demo_load_def demo_update_def
      base_config_def config_file_name_def config_file_name_default_def Let_def)

theorem command_line_overrides_files_witness:
  "fst (initialize demo_env (Some [''--App.x=3'']) demo_world) = Inr ()
   \<and> lookup (config (snd (initialize demo_env (Some [''--App.x=3'']) demo_world))) ''App'' ''x''
       = Some (VInt 3)"
proof -
  let ?args = "[''--App.x=3'']"
  let ?w0 = "after_lookup demo_env ?args demo_world"
  let ?w1 = "?w0\<lparr>argv := ?args, generate_config := False, answer_yes := False,
                  config := set_field ''App'' ''x'' (VInt 3) Map.empty\<rparr>"
  have 1: "update_config_merges demo_env"
    by (simp add: update_config_merges_def demo_update_def)
  have 2: "?args = effective_argv demo_env (Some ?args)"
    by (simp add: effective_argv_def)
  have 3: "\<not> external_subcommand demo_env ?args demo_world"
    by (simp add: external_subcommand_def)
  have 4: "parse_command_line demo_env ?args ?w0 = (Inr (), ?w1)"
    by (simp add: demo_parse_def after_lookup_def note_call_def)
  have 5: "\<not> dispatching ?w1"
    by (simp add: dispatching_def after_lookup_def note_call_def)
  have 6: "initialize demo_env (Some ?args) demo_world =
             (Inr (), snd (initialize demo_env (Some ?args) demo_world))"
    using demo_initialize_returns by (simp add: prod_eq_iff)
  have 7: "lookup (config ?w1) ''App'' ''x'' = Some (VInt 3)"
    by (simp add: lookup_def set_field_def merge_config_def merge_section_def)
  from command_line_overrides_files [OF 1 2 3 4 5 6 7] demo_initialize_returns
  show ?thesis
    by simp
qed

section \<open>The launch boundary\<close>

text \<open>
  Claim C8. \<^verbatim>\<open>NoStart\<close> never leaves \<^verbatim>\<open>launch_instance\<close>. When \<^verbatim>\<open>initialize\<close>
  returns and \<^verbatim>\<open>start\<close> raises \<^verbatim>\<open>NoStart\<close>, \<^verbatim>\<open>launch_instance\<close> returns
  normally, in the state \<^verbatim>\<open>start\<close> left. \<^verbatim>\<open>start\<close> raises \<^verbatim>\<open>NoStart\<close> once a
  selected sub-application has been started and has returned, and once the default
  configuration has been written (or declined) without an error.
\<close>

theorem no_start_is_clean:
  "fst (launch_instance E argv_opt w) \<noteq> Inl NoStart
   \<and> (initialize E argv_opt w = (Inr (), w1) \<longrightarrow> start E w1 = (Inl NoStart, w2) \<longrightarrow>
        launch_instance E argv_opt w = (Inr Returned, w2))
   \<and> (subcommand w1 = [] \<longrightarrow> subapp w1 = Some sa \<longrightarrow> fst (subapp_start E sa w1) = Inr () \<longrightarrow>
        fst (start E w1) = Inl NoStart)
   \<and> (subcommand w1 = [] \<longrightarrow> subapp w1 = None \<longrightarrow> generate_config w1 \<longrightarrow>
        fst (write_default_config E w1) = Inr () \<longrightarrow> fst (start E w1) = Inl NoStart)"
proof -
  have 1: "fst (launch_instance E argv_opt w) \<noteq> Inl NoStart"
    by (simp add: launch_instance_def split: prod.splits sum.splits)
  have 2: "initialize E argv_opt w = (Inr (), w1) \<longrightarrow> start E w1 = (Inl NoStart, w2) \<longrightarrow>
        launch_instance E argv_opt w = (Inr Returned, w2)"
    by (simp add: launch_instance_def super_launch_instance_def)
  have 3: "subcommand w1 = [] \<longrightarrow> subapp w1 = Some sa \<longrightarrow> fst (subapp_start E sa w1) = Inr () \<longrightarrow>
        fst (start E w1) = Inl NoStart"
    by (simp add: start_def call_def split: prod.splits sum.splits)
  have 4: "subcommand w1 = [] \<longrightarrow> subapp w1 = None \<longrightarrow> generate_config w1 \<longrightarrow>
        fst (write_default_config E w1) = Inr () \<longrightarrow> fst (start E w1) = Inl NoStart"
    by (simp add: start_def split: prod.splits sum.splits)
  from 1 2 3 4 show ?thesis by blast
qed

lemma demo_generate_initialize:
  "initialize demo_env (Some [''--generate-config'', ''-y'']) demo_world =
     (Inr (), demo_world\<lparr>argv := [''--generate-config'', ''-y''], generate_config := True,
                         answer_yes := True,
                         calls := [Which ''demo---generate-config'',
                                   ParseCommandLine [''--generate-config'', ''-y'']]\<rparr>)"
  by (simp add: initialize_def catch_config_error_def initialize_body_def effective_argv_def
      find_subcommand_def resolve_def call_def note_call_def demo_parse_def dispatching_def
      Let_def demo_world_def)

lemma os_path_split_demo_config:
  "os_path_split ''/home/u/.jupyter/demo_config.py'' = (''/home/u/.jupyter'', ''demo_config.py'')"
  by (simp add: os_path_split_def rstrip_sep_def Let_def)

lemma demo_generate_write:
  "write_default_config demo_env
     (demo_world\<lparr>argv := [''--generate-config'', ''-y''], generate_config := True,
                 answer_yes := True,
                 calls := [Which ''demo---generate-config'',
                           ParseCommandLine [''--generate-config'', ''-y'']]\<rparr>) =
   (Inr (),
    demo_world\<lparr>argv := [''--generate-config'', ''-y''], generate_config := True,
                answer_yes := True,
                fs := (fs demo_world)(''/home/u/.jupyter/demo_config.py'' \<mapsto> ''# defaults''),
                stdout := [''Writing default config to: /home/u/.jupyter/demo_config.py''],
                calls := [Which ''demo---generate-config'',
                          ParseCommandLine [''--generate-config'', ''-y''],
                          WriteDefaultConfig, GenerateConfigFile,
                          EnsureDirExists ''/home/u/.jupyter'',
                          OpenWrite ''/home/u/.jupyter/demo_config.py'']\<rparr>)"
  by (simp add: write_default_config_def write_config_text_def note_call_def call_def print_def
      os_path_join_def os_path_exists_def os_path_dirname_def os_path_split_demo_config
      config_file_name_def config_file_name_default_def Let_def demo_world_def)

theorem no_start_is_clean_witness:
  "fst (start demo_env (snd (initialize demo_env (Some [''--generate-config'', ''-y'']) demo_world)))
     = Inl NoStart
   \<and> fst (launch_instance demo_env (Some [''--generate-config'', ''-y'']) demo_world) = Inr Returned
   \<and> fs (snd (launch_instance demo_env (Some [''--generate-config'', ''-y'']) demo_world))
        ''/home/u/.jupyter/demo_config.py'' = Some ''# defaults''"
proof -
  let ?args = "[''--generate-config'', ''-y'']"
  let ?w1 = "snd (initialize demo_env (Some ?args) demo_world)"
  let ?w2 = "snd (start demo_env ?w1)"
  have i: "initialize demo_env (Some ?args) demo_world = (Inr (), ?w1)"
    by (simp add: demo_generate_initialize)
  have s1: "fst (start demo_env ?w1) = Inl NoStart"
    by (simp add: demo_generate_initialize start_def demo_generate_write)
  then have s: "start demo_env ?w1 = (Inl NoStart, ?w2)"
    by (simp add: prod_eq_iff)
  have f: "fs ?w2 ''/home/u/.jupyter/demo_config.py'' = Some ''# defaults''"
    by (simp add: demo_generate_initialize start_def demo_generate_write)
  from no_start_is_clean [of demo_env "Some ?args" demo_world ?w1 ?w2] i s
  have l: "launch_instance demo_env (Some ?args) demo_world = (Inr Returned, ?w2)"
    by blast
  have l1: "fst (launch_instance demo_env (Some ?args) demo_world) = Inr Returned"
    by (simp add: l)
  have l2: "fs (snd (launch_instance demo_env (Some ?args) demo_world))
        ''/home/u/.jupyter/demo_config.py'' = Some ''# defaults''"
    unfolding l using f by simp
  show ?thesis
    by (rule conjI [OF s1 conjI [OF l1 l2]])
qed

section \<open>The default-configuration writer\<close>

lemma decisive_answer: "decisive r \<longleftrightarrow> startswith_yn (answer_of r)"
  by (auto simp: decisive_def answer_of_def startswith_yn_def startswith_def lower_def
      split: reply.splits)

lemma declines_answer: "declines r \<longleftrightarrow> startswith (answer_of r) (CHR ''n'')"
  by (auto simp: declines_def answer_of_def startswith_def lower_def split: reply.splits)

lemma ask_reply:
  "stdin w = r # rest \<Longrightarrow>
     ask cfile w = (Inr (answer_of r),
                    w\<lparr>stdin := rest, stdout := stdout w @ [overwrite_prompt cfile] @ echo r\<rparr>)"
  by (simp add: ask_def print_def answer_of_def echo_def Let_def split: reply.splits)

lemma ask_until_run:
  "\<not> startswith_yn a \<Longrightarrow> stdin w = pre @ r # rest \<Longrightarrow> \<forall>x\<in>set pre. \<not> decisive x \<Longrightarrow>
   decisive r \<Longrightarrow>
     ask_until cfile a w =
       (Inr (answer_of r),
        w\<lparr>stdin := rest,
          stdout := stdout w @ concat (replicate (Suc (length pre)) [guidance, overwrite_prompt cfile])
                      @ echo r\<rparr>)"
proof (induction pre arbitrary: a w)
  case Nil
  then have s: "stdin (print guidance w) = r # rest"
    by (simp add: print_def)
  from Nil(4) have d: "startswith_yn (answer_of r)"
    by (simp add: decisive_answer)
  show ?case
    using Nil(1) d
    by (subst ask_until.simps, simp add: ask_reply [OF s])
       (subst ask_until.simps, simp add: print_def)
next
  case (Cons x pre)
  then have s: "stdin (print guidance w) = x # (pre @ r # rest)"
    by (simp add: print_def)
  from Cons.prems(3) have dx: "\<not> decisive x"
    by simp
  then have nx: "\<not> startswith_yn (answer_of x)"
    by (simp add: decisive_answer)
  from dx have e: "echo x = []"
    by (cases x) (simp_all add: decisive_def echo_def)
  let ?w' = "(print guidance w)\<lparr>stdin := pre @ r # rest,
                stdout := stdout (print guidance w) @ [overwrite_prompt cfile] @ echo x\<rparr>"
  have "ask_until cfile a w = ask_until cfile (answer_of x) ?w'"
    using Cons.prems(1) by (subst ask_until.simps, simp add: ask_reply [OF s])
  also have "\<dots> = (Inr (answer_of r),
        ?w'\<lparr>stdin := rest,
          stdout := stdout ?w' @ concat (replicate (Suc (length pre)) [guidance, overwrite_prompt cfile])
                      @ echo r\<rparr>)"
    using Cons.prems(3,4) by (intro Cons.IH [OF nx]) simp_all
  finally show ?case
    by (simp add: print_def e)
qed

lemma ask_until_done: "startswith_yn a \<Longrightarrow> ask_until cfile a w = (Inr a, w)"
  by (subst ask_until.simps) simp

lemma confirm_run:
  assumes "stdin w = pre @ r # rest" and "\<forall>x\<in>set pre. \<not> decisive x" and "decisive r"
  shows "(case ask cfile w of (Inl e, w1) \<Rightarrow> (Inl e, w1)
          | (Inr answer, w1) \<Rightarrow> ask_until cfile answer w1) =
           (Inr (answer_of r), w\<lparr>stdin := rest, stdout := stdout w @ transcript cfile pre r\<rparr>)"
proof (cases pre)
  case Nil
  with assms(1) have s: "stdin w = r # rest" by simp
  from assms(3) have "startswith_yn (answer_of r)" by (simp add: decisive_answer)
  then show ?thesis
    using Nil by (simp add: ask_reply [OF s] ask_until_done transcript_def)
next
  case (Cons x pre')
  with assms(1) have s: "stdin w = x # (pre' @ r # rest)" by simp
  from Cons assms(2) have dx: "\<not> decisive x" and rest: "\<forall>x\<in>set pre'. \<not> decisive x"
    by simp_all
  from dx have nx: "\<not> startswith_yn (answer_of x)"
    by (simp add: decisive_answer)
  from dx have e: "echo x = []"
    by (cases x) (simp_all add: decisive_def echo_def)
  let ?w' = "w\<lparr>stdin := pre' @ r # rest, stdout := stdout w @ [overwrite_prompt cfile] @ echo x\<rparr>"
  have "stdin ?w' = pre' @ r # rest" by simp
  from ask_until_run [OF nx this rest assms(3)] show ?thesis
    using Cons by (simp add: ask_reply [OF s] e transcript_def)
qed

text \<open>
  Claim C5, as the code has it. Let the target file exist and \<^verbatim>\<open>answer_yes\<close> be
  false, and let the input hold replies that do not settle the question followed
  by one that does. A reply settles it when it is the user's interrupt, an empty
  line, or a line whose lowercased form starts with \<^verbatim>\<open>y\<close> or \<^verbatim>\<open>n\<close>. Then
  \<^verbatim>\<open>write_default_config\<close> reads exactly those replies; it shows the prompt once
  for each of them and the guidance line once after each reply that did not settle
  the question. If the settling reply is the interrupt, an empty line or a line
  starting with \<^verbatim>\<open>n\<close>, the method returns normally and the files are as they were;
  otherwise it goes on to write the file.
\<close>

theorem overwrite_confirmation:
  assumes "os_path_exists w (target w)" and "\<not> answer_yes w"
    and "stdin w = pre @ r # rest" and "\<forall>x\<in>set pre. \<not> decisive x" and "decisive r"
  shows "(declines r \<longrightarrow>
            write_default_config E w =
              (Inr (), w\<lparr>calls := calls w @ [WriteDefaultConfig], stdin := rest,
                         stdout := stdout w @ transcript (target w) pre r\<rparr>))
       \<and> (\<not> declines r \<longrightarrow>
            write_default_config E w =
              write_config_text E (target w)
                (w\<lparr>calls := calls w @ [WriteDefaultConfig], stdin := rest,
                   stdout := stdout w @ transcript (target w) pre r\<rparr>))"
proof -
  let ?w = "note_call WriteDefaultConfig w"
  have t: "target ?w = target w"
    by (simp add: target_def note_call_def)
  have x: "os_path_exists ?w (target w) \<and> \<not> answer_yes ?w"
    using assms(1,2) by (simp add: os_path_exists_def note_call_def)
  have s: "stdin ?w = pre @ r # rest"
    using assms(3) by (simp add: note_call_def)
  note c = confirm_run [OF s assms(4,5), of "target w"]
  have w: "write_default_config E w =
      (if startswith (answer_of r) (CHR ''n'')
       then (Inr (), ?w\<lparr>stdin := rest, stdout := stdout ?w @ transcript (target w) pre r\<rparr>)
       else write_config_text E (target w)
              (?w\<lparr>stdin := rest, stdout := stdout ?w @ transcript (target w) pre r\<rparr>))"
    unfolding write_default_config_def Let_def target_def [symmetric] t
    using x c by (auto split: prod.splits sum.splits)
  show ?thesis
    unfolding w by (simp add: declines_answer note_call_def)
qed

text \<open>
  The claim as it was stated has every answer that does not start with \<^verbatim>\<open>y\<close> or
  \<^verbatim>\<open>n\<close> followed by the guidance line and a new prompt. The empty answer is not
  such an answer and is not followed by either: it is taken as \<^verbatim>\<open>n\<close>, and the
  next line of the input is left unread.
\<close>

theorem empty_answer_counterexample:
  "\<not> startswith_yn (lower [])
   \<and> write_default_config demo_env (demo_world\<lparr>stdin := [Line [], Line ''y'']\<rparr>) =
       (Inr (), demo_world\<lparr>stdin := [Line ''y''],
                           stdout := [overwrite_prompt ''/home/u/.jupyter/demo_config.py''],
                           calls := [WriteDefaultConfig]\<rparr>)"
  by (simp add: write_default_config_def note_call_def ask_def print_def ask_until_done
      startswith_yn_def startswith_def lower_def os_path_join_def os_path_exists_def
      config_file_name_def config_file_name_default_def Let_def demo_world_def)

lemma lower_No: "lower ''No'' = ''no''"
  by code_simp

lemma lower_maybe: "lower ''maybe'' = ''maybe''"
  by code_simp

theorem overwrite_confirmation_witness:
  "write_default_config demo_env (demo_world\<lparr>stdin := [Line ''maybe'', Line ''No'', Line ''y'']\<rparr>) =
     (Inr (), demo_world\<lparr>stdin := [Line ''y''],
                         stdout := [overwrite_prompt ''/home/u/.jupyter/demo_config.py'', guidance,
                                    overwrite_prompt ''/home/u/.jupyter/demo_config.py''],
                         calls := [WriteDefaultConfig]\<rparr>)"
proof -
  let ?w = "demo_world\<lparr>stdin := [Line ''maybe'', Line ''No'', Line ''y'']\<rparr>"
  have t: "target ?w = ''/home/u/.jupyter/demo_config.py''"
    by (simp add: target_def os_path_join_def config_file_name_def config_file_name_default_def)
  have 1: "os_path_exists ?w (target ?w)"
    unfolding t by (simp add: os_path_exists_def)
  have 2: "\<not> answer_yes ?w"
    by simp
  have 3: "stdin ?w = [Line ''maybe''] @ Line ''No'' # [Line ''y'']"
    by simp
  have 4: "\<forall>x\<in>set [Line ''maybe'']. \<not> decisive x"
    by (simp add: decisive_def lower_maybe startswith_yn_def startswith_def)
  have 5: "decisive (Line ''No'')"
    by (simp add: decisive_def lower_No startswith_yn_def startswith_def)
  have 6: "declines (Line ''No'')"
    by (simp add: declines_def lower_No startswith_def)
  from overwrite_confirmation [OF 1 2 3 4 5, of demo_env, THEN conjunct1] 6
  have "write_default_config demo_env ?w =
          (Inr (), ?w\<lparr>calls := calls ?w @ [WriteDefaultConfig], stdin := [Line ''y''],
                      stdout := stdout ?w @ transcript (target ?w) [Line ''maybe''] (Line ''No'')\<rparr>)"
    by blast
  then show ?thesis
    unfolding t by (simp add: transcript_def echo_def demo_world_def)
qed


end
